theory Spec2Isabelle
  imports Main
begin

section \<open>Values of the Python program\<close>

text \<open>
  A Python \<open>str\<close> is a sequence of Unicode code points, so it is modelled as a list of
  natural numbers. String literals of the source are written as HOL literals and
  converted code point by code point with \<open>py\<close>.
\<close>

type_synonym pystr = "nat list"

abbreviation py :: "string \<Rightarrow> pystr" where
  "py \<equiv> map of_char"

text \<open>
  \<open>str.isspace\<close> on one code point: the characters the interpreter treats as
  whitespace, which are the ones \<open>str.strip()\<close> removes.
\<close>

definition isspace :: "nat \<Rightarrow> bool" where
  "isspace c \<longleftrightarrow>
     (0x09 \<le> c \<and> c \<le> 0x0D) \<or> (0x1C \<le> c \<and> c \<le> 0x20) \<or> c = 0x85 \<or> c = 0xA0 \<or>
     c = 0x1680 \<or> (0x2000 \<le> c \<and> c \<le> 0x200A) \<or> c = 0x2028 \<or> c = 0x2029 \<or>
     c = 0x202F \<or> c = 0x205F \<or> c = 0x3000"

definition strip :: "pystr \<Rightarrow> pystr" where
  "strip s = rev (dropWhile isspace (rev (dropWhile isspace s)))"

text \<open>
  The values \<open>json.load\<close> produces. A float is never inspected by the program; it is
  kept as mantissa and binary exponent, or one of the three special values.
\<close>

datatype pyfloat = Finite int int | PosInf | NegInf | NaN

datatype pyval =
    PyNone
  | PyBool bool
  | PyInt int
  | PyFloat pyfloat
  | PyStr pystr
  | PyList "pyval list"
  | PyDict "(pystr \<times> pyval) list"

text \<open>\<open>isinstance(data, list)\<close>\<close>

fun isinstance_list :: "pyval \<Rightarrow> bool" where
  "isinstance_list (PyList xs) = True"
| "isinstance_list v = False"

text \<open>
  Exceptions, by the class the \<open>except\<close> clauses of the program tell apart, each with
  its \<open>str(e)\<close>. \<open>Exception\<close> stands for every other subclass of \<open>Exception\<close>.
\<close>

datatype exn =
    RuntimeError pystr
  | PyMongoError pystr
  | JSONDecodeError pystr
  | Exception pystr

fun str :: "exn \<Rightarrow> pystr" where
  "str (RuntimeError m) = m"
| "str (PyMongoError m) = m"
| "str (JSONDecodeError m) = m"
| "str (Exception m) = m"

section \<open>Configuration\<close>

text \<open>
  \<open>os.environ\<close> is a dictionary from names to values; the three settings are read from
  it once, \<open>MONGO_URI\<close> without a default.
\<close>

type_synonym environ = "pystr \<rightharpoonup> pystr"

definition MONGO_URI :: "environ \<Rightarrow> pystr option" where
  "MONGO_URI env = env (py ''MONGO_URI'')"

definition DB_NAME :: "environ \<Rightarrow> pystr" where
  "DB_NAME env = (case env (py ''DB_NAME'') of None \<Rightarrow> py ''mydatabase'' | Some v \<Rightarrow> v)"

definition COLLECTION_NAME :: "environ \<Rightarrow> pystr" where
  "COLLECTION_NAME env =
     (case env (py ''COLLECTION_NAME'') of None \<Rightarrow> py ''submissions'' | Some v \<Rightarrow> v)"

section \<open>The datastore client and the state of the process\<close>

text \<open>
  A \<open>MongoClient\<close> object: the arguments it was built with and its identity, the number
  of client objects the process had built before it. \<open>client[db][coll]\<close> is a handle
  naming the client, the database and the collection.
\<close>

record client =
  host :: pystr
  serverSelectionTimeoutMS :: nat
  ident :: nat

record collection =
  coll_client :: client
  database :: pystr
  coll_name :: pystr

type_synonym document = "(pystr \<times> pystr) list"

text \<open>The calls the process makes into the datastore driver, in order.\<close>

datatype call =
    Call_MongoClient pystr nat
  | Call_insert_one collection document

text \<open>
  The mutable state: the module-level \<open>mongo_client\<close> (\<open>None\<close> until first use), the
  number of client objects built, the driver calls made so far, and the messages queued
  by \<open>flash\<close> as (category, message) pairs.
\<close>

record app_state =
  mongo_client :: "client option"
  clients_built :: nat
  calls :: "call list"
  flashes :: "(pystr \<times> pystr) list"

text \<open>
  What lies outside the program and answers it during one request: the file
  \<open>data.json\<close> beside the application (\<open>None\<close> when it does not exist), what opening it
  and \<open>json.load\<close> give on its contents, whether the \<open>MongoClient\<close> constructor raises,
  and what \<open>insert_one\<close> answers (an exception or the identifier of the new document).
\<close>

record extern =
  DATA_FILE :: "nat list option"
  json_load :: "nat list \<Rightarrow> exn + pyval"
  MongoClient_raises :: "pystr \<Rightarrow> nat \<Rightarrow> exn option"
  insert_one_result :: "collection \<Rightarrow> document \<Rightarrow> exn + nat"

definition MongoClient :: "extern \<Rightarrow> pystr \<Rightarrow> nat \<Rightarrow> app_state \<Rightarrow> (exn + client) \<times> app_state" where
  "MongoClient ext uri timeout s =
     (let s1 = s\<lparr>calls := calls s @ [Call_MongoClient uri timeout]\<rparr>
      in case MongoClient_raises ext uri timeout of
           Some e \<Rightarrow> (Inl e, s1)
         | None \<Rightarrow>
             (Inr \<lparr>host = uri, serverSelectionTimeoutMS = timeout, ident = clients_built s\<rparr>,
              s1\<lparr>clients_built := Suc (clients_built s)\<rparr>))"

definition insert_one ::
    "extern \<Rightarrow> collection \<Rightarrow> document \<Rightarrow> app_state \<Rightarrow> (exn + nat) \<times> app_state" where
  "insert_one ext c doc s =
     (insert_one_result ext c doc, s\<lparr>calls := calls s @ [Call_insert_one c doc]\<rparr>)"

text \<open>\<open>get_mongo_collection\<close>: the lazily created client and the collection on it.\<close>

definition get_mongo_collection ::
    "environ \<Rightarrow> extern \<Rightarrow> app_state \<Rightarrow> (exn + collection) \<times> app_state" where
  "get_mongo_collection env ext s =
     (case MONGO_URI env of
        None \<Rightarrow>
          (Inl (RuntimeError (py ''MONGO_URI is not configured in environment variables.'')), s)
      | Some uri \<Rightarrow>
          (case mongo_client s of
             None \<Rightarrow>
               (case MongoClient ext uri 5000 s of
                  (Inl e, s1) \<Rightarrow> (Inl e, s1)
                | (Inr c, s1) \<Rightarrow>
                    (Inr \<lparr>coll_client = c, database = DB_NAME env,
                          coll_name = COLLECTION_NAME env\<rparr>,
                     s1\<lparr>mongo_client := Some c\<rparr>))
           | Some c \<Rightarrow>
               (Inr \<lparr>coll_client = c, database = DB_NAME env,
                     coll_name = COLLECTION_NAME env\<rparr>, s)))"

section \<open>Responses\<close>

text \<open>
  A response is what the handler hands to the framework: a JSON value to serialise, a
  template with the values to substitute, or a redirect, together with the status code.
\<close>

datatype body =
    Json pyval
  | Template pystr "(pystr \<times> pystr) list"
  | Redirect pystr

record response =
  content :: body
  status :: nat

definition jsonify :: "pyval \<Rightarrow> response" where
  "jsonify v = \<lparr>content = Json v, status = 200\<rparr>"

definition render_template :: "pystr \<Rightarrow> (pystr \<times> pystr) list \<Rightarrow> response" where
  "render_template name kwargs = \<lparr>content = Template name kwargs, status = 200\<rparr>"

definition redirect :: "pystr \<Rightarrow> response" where
  "redirect location = \<lparr>content = Redirect location, status = 302\<rparr>"

text \<open>A handler returning \<open>(response, code)\<close> has the code replace the status.\<close>

definition with_status :: "response \<Rightarrow> nat \<Rightarrow> response" where
  "with_status r code = r\<lparr>status := code\<rparr>"

definition flash :: "pystr \<Rightarrow> pystr \<Rightarrow> app_state \<Rightarrow> app_state" where
  "flash message category s = s\<lparr>flashes := flashes s @ [(category, message)]\<rparr>"

text \<open>The view functions and the URL rule each is registered under.\<close>

datatype endpoint = Ep_api_list | Ep_form | Ep_submit | Ep_success

fun url_for :: "endpoint \<Rightarrow> pystr" where
  "url_for Ep_api_list = py ''/api''"
| "url_for Ep_form = py ''/''"
| "url_for Ep_submit = py ''/submit''"
| "url_for Ep_success = py ''/success''"

section \<open>The handlers\<close>

definition api_list :: "extern \<Rightarrow> response" where
  "api_list ext =
     (case DATA_FILE ext of
        None \<Rightarrow> jsonify (PyList [])
      | Some f \<Rightarrow>
          (case json_load ext f of
             Inr data \<Rightarrow>
               if \<not> isinstance_list data
               then with_status
                      (jsonify (PyDict [(py ''error'',
                          PyStr (py ''backend file does not contain a JSON list''))])) 500
               else jsonify data
           | Inl (JSONDecodeError m) \<Rightarrow>
               with_status
                 (jsonify (PyDict [(py ''error'', PyStr (py ''invalid JSON in backend file''))]))
                 500
           | Inl e \<Rightarrow>
               with_status (jsonify (PyDict [(py ''error'', PyStr (str e))])) 500))"

definition form :: response where
  "form = render_template (py ''form.html'') []"

definition success :: response where
  "success = render_template (py ''success.html'') []"

text \<open>
  \<open>request.form\<close> holds the submitted fields in order, a key possibly several times;
  \<open>get\<close> gives the first value of the key, or the default.
\<close>

type_synonym form_data = "(pystr \<times> pystr) list"

definition form_get :: "form_data \<Rightarrow> pystr \<Rightarrow> pystr \<Rightarrow> pystr" where
  "form_get fd key dflt = (case map_of fd key of None \<Rightarrow> dflt | Some v \<Rightarrow> v)"

text \<open>The three \<open>except\<close> clauses of \<open>submit\<close>, in the order of the source.\<close>

fun submit_except :: "pystr \<Rightarrow> pystr \<Rightarrow> pystr \<Rightarrow> exn \<Rightarrow> app_state \<Rightarrow> response \<times> app_state" where
  "submit_except name email message (RuntimeError m) s =
     (with_status
        (render_template (py ''form.html'')
           [(py ''name'', name), (py ''email'', email), (py ''message'', message)]) 500,
      flash (py ''Server configuration error: '' @ m) (py ''error'') s)"
| "submit_except name email message (PyMongoError m) s =
     (with_status
        (render_template (py ''form.html'')
           [(py ''name'', name), (py ''email'', email), (py ''message'', message)]) 500,
      flash (py ''Database error: '' @ m) (py ''error'') s)"
| "submit_except name email message e s =
     (with_status
        (render_template (py ''form.html'')
           [(py ''name'', name), (py ''email'', email), (py ''message'', message)]) 500,
      flash (py ''Unexpected error: '' @ str e) (py ''error'') s)"

definition submit :: "environ \<Rightarrow> extern \<Rightarrow> form_data \<Rightarrow> app_state \<Rightarrow> response \<times> app_state" where
  "submit env ext fd s =
     (let name = strip (form_get fd (py ''name'') []);
          email = strip (form_get fd (py ''email'') []);
          message = strip (form_get fd (py ''message'') [])
      in if name = [] \<or> email = [] then
           (with_status
              (render_template (py ''form.html'')
                 [(py ''name'', name), (py ''email'', email), (py ''message'', message)]) 400,
            flash (py ''Name and email are required.'') (py ''error'') s)
         else
           let doc = [(py ''name'', name), (py ''email'', email), (py ''message'', message)]
           in case get_mongo_collection env ext s of
                (Inl e, s1) \<Rightarrow> submit_except name email message e s1
              | (Inr collection, s1) \<Rightarrow>
                  (case insert_one ext collection doc s1 of
                     (Inl e, s2) \<Rightarrow> submit_except name email message e s2
                   | (Inr result, s2) \<Rightarrow> (redirect (url_for Ep_success), s2)))"

text \<open>
  The four routes. One request is answered by the handler of its route; a sequence of
  requests threads the state of the process through them, each request meeting its own
  outside world.
\<close>

datatype request = GET_api | GET_root | POST_submit form_data | GET_success

fun handle :: "environ \<Rightarrow> extern \<Rightarrow> request \<Rightarrow> app_state \<Rightarrow> response \<times> app_state" where
  "handle env ext GET_api s = (api_list ext, s)"
| "handle env ext GET_root s = (form, s)"
| "handle env ext (POST_submit fd) s = submit env ext fd s"
| "handle env ext GET_success s = (success, s)"

fun serve :: "environ \<Rightarrow> (extern \<times> request) list \<Rightarrow> app_state \<Rightarrow> app_state" where
  "serve env [] s = s"
| "serve env ((ext, r) # rs) s = serve env rs (snd (handle env ext r s))"

section \<open>Observations on the state and concrete scenarios\<close>

text \<open>
  The documents handed to \<open>insert_one\<close> and the arguments of the \<open>MongoClient\<close>
  constructions, read off the driver calls in order.
\<close>

fun inserts :: "call list \<Rightarrow> (collection \<times> document) list" where
  "inserts [] = []"
| "inserts (Call_insert_one c doc # cs) = (c, doc) # inserts cs"
| "inserts (Call_MongoClient uri timeout # cs) = inserts cs"

fun constructions :: "call list \<Rightarrow> (pystr \<times> nat) list" where
  "constructions [] = []"
| "constructions (Call_MongoClient uri timeout # cs) = (uri, timeout) # constructions cs"
| "constructions (Call_insert_one c doc # cs) = constructions cs"

text \<open>The state of a freshly started process: \<open>mongo_client = None\<close>, nothing done yet.\<close>

definition initial_state :: app_state where
  "initial_state = \<lparr>mongo_client = None, clients_built = 0, calls = [], flashes = []\<rparr>"

text \<open>
  An outside world with the given catalog file and parse result, in which the driver
  builds clients and inserts documents without raising.
\<close>

definition outside :: "nat list option \<Rightarrow> (exn + pyval) \<Rightarrow> extern" where
  "outside file parsed =
     \<lparr>DATA_FILE = file, json_load = (\<lambda>contents. parsed),
      MongoClient_raises = (\<lambda>uri timeout. None), insert_one_result = (\<lambda>c doc. Inr 1)\<rparr>"

definition configured :: environ where
  "configured = [py ''MONGO_URI'' \<mapsto> py ''mongodb://localhost:27017'']"

definition the_client :: client where
  "the_client = \<lparr>host = py ''mongodb://localhost:27017'', serverSelectionTimeoutMS = 5000,
                  ident = 0\<rparr>"

definition submissions :: collection where
  "submissions = \<lparr>coll_client = the_client, database = py ''mydatabase'',
                   coll_name = py ''submissions''\<rparr>"

definition connected :: app_state where
  "connected =
     \<lparr>mongo_client = Some the_client, clients_built = 1,
      calls = [Call_MongoClient (py ''mongodb://localhost:27017'') 5000], flashes = []\<rparr>"

definition ann :: form_data where
  "ann = [(py ''name'', py '' Ann ''), (py ''email'', py ''ann@x.com''), (py ''message'', [])]"

definition blank_name :: form_data where
  "blank_name =
     [(py ''name'', py '' ''), (py ''email'', py ''x@y.com''), (py ''message'', py ''hi'')]"

definition no_message :: form_data where
  "no_message = [(py ''name'', py '' Ann ''), (py ''email'', py ''ann@x.com'')]"

definition no_name :: form_data where
  "no_name = [(py ''email'', py ''x@y.com''), (py ''message'', py ''hi'')]"

section \<open>Trimming\<close>

text \<open>
  \<open>strip\<close> removes a whitespace prefix and a whitespace suffix and nothing else; what
  is left neither starts nor ends with whitespace, and it is empty exactly when the
  string is empty or whitespace only.
\<close>

lemma dropWhile_all: "(\<forall>c\<in>set (dropWhile P xs). P c) \<longleftrightarrow> (\<forall>c\<in>set xs. P c)"
  by (induction xs) auto

lemma strip_empty_iff: "strip x = [] \<longleftrightarrow> (\<forall>c\<in>set x. isspace c)"
  by (simp add: strip_def dropWhile_all)

lemma strip_decomposition:
  "\<exists>a b. x = a @ strip x @ b \<and> (\<forall>c\<in>set a. isspace c) \<and> (\<forall>c\<in>set b. isspace c)"
proof -
  let ?d = "dropWhile isspace x"
  let ?a = "takeWhile isspace x"
  let ?b = "rev (takeWhile isspace (rev ?d))"
  have "?d = strip x @ ?b"
    unfolding strip_def by (metis rev_append rev_rev_ident takeWhile_dropWhile_id)
  moreover have "x = ?a @ ?d" by simp
  ultimately have "x = ?a @ strip x @ ?b" by simp
  moreover have "\<forall>c\<in>set ?a. isspace c" by (auto dest: set_takeWhileD)
  moreover have "\<forall>c\<in>set ?b. isspace c" by (auto dest: set_takeWhileD)
  ultimately show ?thesis by blast
qed

lemma last_dropWhile: "dropWhile P ys \<noteq> [] \<Longrightarrow> last (dropWhile P ys) = last ys"
  by (induction ys) auto

lemma strip_no_outer_space:
  assumes "strip x \<noteq> []"
  shows "\<not> isspace (hd (strip x)) \<and> \<not> isspace (last (strip x))"
proof -
  let ?d = "dropWhile isspace x"
  let ?e = "dropWhile isspace (rev ?d)"
  from assms have e: "?e \<noteq> []" by (simp add: strip_def)
  have d: "?d \<noteq> []"
  proof
    assume "?d = []"
    then have "?e = []" by (simp only: rev.simps dropWhile.simps)
    with e show False by contradiction
  qed
  have "last (strip x) = hd ?e" using e by (simp add: strip_def last_rev)
  moreover have "\<not> isspace (hd ?e)" using e by (rule hd_dropWhile)
  moreover have "hd (strip x) = last ?e" using e by (simp add: strip_def hd_rev)
  moreover have "last ?e = last (rev ?d)" using e by (rule last_dropWhile)
  moreover have "last (rev ?d) = hd ?d" using d by (simp add: last_rev)
  moreover have "\<not> isspace (hd ?d)" using d by (rule hd_dropWhile)
  ultimately show ?thesis by simp
qed

lemma strip_Nil: "strip [] = []"
  by (simp add: strip_def)

section \<open>Helper facts on the state\<close>

lemma inserts_append: "inserts (xs @ ys) = inserts xs @ inserts ys"
  by (induction xs rule: inserts.induct) simp_all

lemma constructions_append: "constructions (xs @ ys) = constructions xs @ constructions ys"
  by (induction xs rule: constructions.induct) simp_all

lemma submit_except_frame:
  "mongo_client (snd (submit_except n e m x s)) = mongo_client s \<and>
   clients_built (snd (submit_except n e m x s)) = clients_built s \<and>
   calls (snd (submit_except n e m x s)) = calls s"
  by (cases x) (simp_all add: flash_def)

lemma get_mongo_collection_inserts:
  "inserts (calls (snd (get_mongo_collection env ext s))) = inserts (calls s)"
  by (simp add: get_mongo_collection_def MongoClient_def Let_def inserts_append
      split: option.splits)

lemma get_mongo_collection_target:
  "get_mongo_collection env ext s = (Inr c, s1) \<Longrightarrow>
   database c = DB_NAME env \<and> coll_name c = COLLECTION_NAME env"
  by (auto simp add: get_mongo_collection_def MongoClient_def Let_def
      split: option.splits)

lemma get_mongo_collection_reuse:
  "mongo_client s = Some c \<Longrightarrow> snd (get_mongo_collection env ext s) = s"
  by (simp add: get_mongo_collection_def split: option.splits)

lemma form_get_missing: "k \<notin> fst ` set fd \<Longrightarrow> form_get fd k [] = []"
proof -
  assume "k \<notin> fst ` set fd"
  then have "map_of fd k = None" by (simp add: map_of_eq_None_iff)
  then show ?thesis by (simp add: form_get_def)
qed

lemma form_get_absent:
  assumes "k \<notin> fst ` set (xs @ ys)"
  shows "form_get (xs @ (k, []) # ys) k' [] = form_get (xs @ ys) k' []"
proof (cases "k' = k")
  case True
  from assms have "map_of xs k = None" and "map_of (xs @ ys) k = None"
    by (auto simp add: map_of_eq_None_iff)
  with True show ?thesis
    by (simp add: form_get_def map_add_def)
next
  case False
  then show ?thesis
    by (simp add: form_get_def map_add_def split: option.splits)
qed

lemma submit_absent_field:
  assumes "k \<notin> fst ` set (xs @ ys)"
  shows "submit env ext (xs @ (k, []) # ys) s = submit env ext (xs @ ys) s"
  unfolding submit_def by (simp only: form_get_absent [OF assms])

lemma submit_validation_failure:
  assumes "strip (form_get fd (py ''name'') []) = [] \<or> strip (form_get fd (py ''email'') []) = []"
  shows "submit env ext fd s =
     (\<lparr>content = Template (py ''form.html'')
          [(py ''name'', strip (form_get fd (py ''name'') [])),
           (py ''email'', strip (form_get fd (py ''email'') [])),
           (py ''message'', strip (form_get fd (py ''message'') []))],
       status = 400\<rparr>,
      s\<lparr>flashes := flashes s @ [(py ''error'', py ''Name and email are required.'')]\<rparr>)"
  using assms
  by (simp add: submit_def Let_def with_status_def render_template_def flash_def)

lemma submit_valid_success:
  assumes name: "strip (form_get fd (py ''name'') []) \<noteq> []"
    and email: "strip (form_get fd (py ''email'') []) \<noteq> []"
    and coll: "get_mongo_collection env ext s = (Inr c, s1)"
    and ins: "insert_one_result ext c
                [(py ''name'', strip (form_get fd (py ''name'') [])),
                 (py ''email'', strip (form_get fd (py ''email'') [])),
                 (py ''message'', strip (form_get fd (py ''message'') []))] = Inr oid"
  shows "submit env ext fd s =
           (\<lparr>content = Redirect (py ''/success''), status = 302\<rparr>,
            s1\<lparr>calls := calls s1 @
               [Call_insert_one c
                 [(py ''name'', strip (form_get fd (py ''name'') [])),
                  (py ''email'', strip (form_get fd (py ''email'') [])),
                  (py ''message'', strip (form_get fd (py ''message'') []))]]\<rparr>)"
  using name email coll ins
  by (simp add: submit_def Let_def insert_one_def redirect_def)

lemma submit_keeps_client:
  assumes "mongo_client s = Some c"
  shows "mongo_client (snd (submit env ext fd s)) = Some c \<and>
         constructions (calls (snd (submit env ext fd s))) = constructions (calls s)"
proof (cases "strip (form_get fd (py ''name'') []) = [] \<or> strip (form_get fd (py ''email'') []) = []")
  case True
  then show ?thesis using assms by (simp add: submit_validation_failure)
next
  case False
  obtain r s1 where g: "get_mongo_collection env ext s = (r, s1)" by (cases "get_mongo_collection env ext s")
  with get_mongo_collection_reuse [OF assms, of env ext] have s1: "s1 = s" by simp
  show ?thesis
  proof (cases r)
    case (Inl e)
    with False g s1 assms show ?thesis
      by (simp add: submit_def Let_def submit_except_frame)
  next
    case (Inr coll)
    with False g s1 assms show ?thesis
      by (cases "insert_one_result ext coll
                [(py ''name'', strip (form_get fd (py ''name'') [])),
                 (py ''email'', strip (form_get fd (py ''email'') [])),
                 (py ''message'', strip (form_get fd (py ''message'') []))]")
         (simp_all add: submit_def Let_def insert_one_def submit_except_frame constructions_append)
  qed
qed

lemma handle_keeps_client:
  "mongo_client s = Some c \<Longrightarrow>
   mongo_client (snd (handle env ext r s)) = Some c \<and>
   constructions (calls (snd (handle env ext r s))) = constructions (calls s)"
  by (cases r) (simp_all add: submit_keeps_client)

lemma serve_keeps_client:
  "mongo_client s = Some c \<Longrightarrow>
   mongo_client (serve env rs s) = Some c \<and>
   constructions (calls (serve env rs s)) = constructions (calls s)"
proof (induction rs arbitrary: s)
  case Nil
  then show ?case by simp
next
  case (Cons a rs)
  obtain ext r where a: "a = (ext, r)" by (cases a)
  from handle_keeps_client [OF Cons.prems, of env ext r]
  have h: "mongo_client (snd (handle env ext r s)) = Some c"
    and k: "constructions (calls (snd (handle env ext r s))) = constructions (calls s)"
    by simp_all
  from Cons.IH [OF h] k a show ?case by simp
qed

lemma submit_keeps_count:
  "mongo_client s = Some c \<Longrightarrow> clients_built (snd (submit env ext fd s)) = clients_built s"
  by (auto simp add: submit_def Let_def get_mongo_collection_def insert_one_def
      submit_except_frame flash_def split: option.splits sum.splits)

lemma submit_single_client:
  assumes "clients_built s = (case mongo_client s of None \<Rightarrow> 0 | Some c \<Rightarrow> 1)"
  shows "clients_built (snd (submit env ext fd s)) =
           (case mongo_client (snd (submit env ext fd s)) of None \<Rightarrow> 0 | Some c \<Rightarrow> 1)"
proof (cases "mongo_client s")
  case (Some c)
  with assms submit_keeps_client [OF Some, of env ext fd] submit_keeps_count [OF Some, of env ext fd]
  show ?thesis by simp
next
  case None
  with assms show ?thesis
    by (auto simp add: submit_def Let_def get_mongo_collection_def MongoClient_def insert_one_def
        submit_except_frame flash_def split: option.splits sum.splits)
qed

lemma serve_single_client:
  "clients_built s = (case mongo_client s of None \<Rightarrow> 0 | Some c \<Rightarrow> 1) \<Longrightarrow>
   clients_built (serve env rs s) = (case mongo_client (serve env rs s) of None \<Rightarrow> 0 | Some c \<Rightarrow> 1)"
proof (induction rs arbitrary: s)
  case Nil
  then show ?case by simp
next
  case (Cons a rs)
  obtain ext r where a: "a = (ext, r)" by (cases a)
  have "clients_built (snd (handle env ext r s)) =
          (case mongo_client (snd (handle env ext r s)) of None \<Rightarrow> 0 | Some c \<Rightarrow> 1)"
    using Cons.prems by (cases r) (simp_all add: submit_single_client)
  from Cons.IH [OF this] a show ?case by simp
qed

section \<open>The catalog endpoint\<close>

text \<open>
  C4: for every catalog file whose contents parse as a JSON array, \<open>GET /api\<close> answers
  with status 200 and that array as the body, elements and their order untouched.
\<close>

theorem api_list_returns_array:
  "DATA_FILE ext = Some f \<Longrightarrow> json_load ext f = Inr (PyList xs) \<Longrightarrow>
   api_list ext = \<lparr>content = Json (PyList xs), status = 200\<rparr>"
  by (simp add: api_list_def jsonify_def)

theorem api_list_returns_array_witness:
  \<open>DATA_FILE (outside (Some (py ''[{"id":1,"name":"A"}]''))
       (Inr (PyList [PyDict [(py ''id'', PyInt 1), (py ''name'', PyStr (py ''A''))]])))
     = Some (py ''[{"id":1,"name":"A"}]'') \<and>
   json_load (outside (Some (py ''[{"id":1,"name":"A"}]''))
       (Inr (PyList [PyDict [(py ''id'', PyInt 1), (py ''name'', PyStr (py ''A''))]])))
       (py ''[{"id":1,"name":"A"}]'')
     = Inr (PyList [PyDict [(py ''id'', PyInt 1), (py ''name'', PyStr (py ''A''))]]) \<and>
   api_list (outside (Some (py ''[{"id":1,"name":"A"}]''))
       (Inr (PyList [PyDict [(py ''id'', PyInt 1), (py ''name'', PyStr (py ''A''))]])))
     = \<lparr>content = Json (PyList [PyDict [(py ''id'', PyInt 1), (py ''name'', PyStr (py ''A''))]]),
        status = 200\<rparr>\<close>
  using api_list_returns_array
    [of \<open>outside (Some (py ''[{"id":1,"name":"A"}]''))
       (Inr (PyList [PyDict [(py ''id'', PyInt 1), (py ''name'', PyStr (py ''A''))]]))\<close>
        \<open>py ''[{"id":1,"name":"A"}]''\<close>
        \<open>[PyDict [(py ''id'', PyInt 1), (py ''name'', PyStr (py ''A''))]]\<close>]
  by (simp add: outside_def)

text \<open>
  C5: when \<open>data.json\<close> does not exist, \<open>GET /api\<close> answers with status 200 and the
  empty JSON array.
\<close>

theorem api_list_missing_file:
  "DATA_FILE ext = None \<Longrightarrow> api_list ext = \<lparr>content = Json (PyList []), status = 200\<rparr>"
  by (simp add: api_list_def jsonify_def)

theorem api_list_missing_file_witness:
  "DATA_FILE (outside None (Inr PyNone)) = None \<and>
   api_list (outside None (Inr PyNone)) = \<lparr>content = Json (PyList []), status = 200\<rparr>"
  using api_list_missing_file [of "outside None (Inr PyNone)"]
  by (simp add: outside_def)

text \<open>
  C6: when the catalog file exists and parses to a JSON value that is not an array,
  \<open>GET /api\<close> answers with status 500 and the body
  \<open>{"error": "backend file does not contain a JSON list"}\<close>.
\<close>

theorem api_list_not_a_list:
  "DATA_FILE ext = Some f \<Longrightarrow> json_load ext f = Inr v \<Longrightarrow> \<forall>xs. v \<noteq> PyList xs \<Longrightarrow>
   api_list ext =
     \<lparr>content = Json (PyDict [(py ''error'',
                  PyStr (py ''backend file does not contain a JSON list''))]),
      status = 500\<rparr>"
  by (cases v) (simp_all add: api_list_def jsonify_def with_status_def)

theorem api_list_not_a_list_witness:
  \<open>DATA_FILE (outside (Some (py ''{"id":1}'')) (Inr (PyDict [(py ''id'', PyInt 1)])))
     = Some (py ''{"id":1}'') \<and>
   json_load (outside (Some (py ''{"id":1}'')) (Inr (PyDict [(py ''id'', PyInt 1)])))
       (py ''{"id":1}'')
     = Inr (PyDict [(py ''id'', PyInt 1)]) \<and>
   (\<forall>xs. PyDict [(py ''id'', PyInt 1)] \<noteq> PyList xs) \<and>
   api_list (outside (Some (py ''{"id":1}'')) (Inr (PyDict [(py ''id'', PyInt 1)])))
     = \<lparr>content = Json (PyDict [(py ''error'',
                    PyStr (py ''backend file does not contain a JSON list''))]),
        status = 500\<rparr>\<close>
  using api_list_not_a_list
    [of \<open>outside (Some (py ''{"id":1}'')) (Inr (PyDict [(py ''id'', PyInt 1)]))\<close>
        \<open>py ''{"id":1}''\<close> \<open>PyDict [(py ''id'', PyInt 1)]\<close>]
  by (simp add: outside_def)

text \<open>
  C7: when the catalog file exists and its contents are not valid JSON text, so that
  \<open>json.load\<close> raises \<open>JSONDecodeError\<close>, \<open>GET /api\<close> answers with status 500 and the
  body \<open>{"error": "invalid JSON in backend file"}\<close>.
\<close>

theorem api_list_invalid_json:
  "DATA_FILE ext = Some f \<Longrightarrow> json_load ext f = Inl (JSONDecodeError m) \<Longrightarrow>
   api_list ext =
     \<lparr>content = Json (PyDict [(py ''error'', PyStr (py ''invalid JSON in backend file''))]),
      status = 500\<rparr>"
  by (simp add: api_list_def jsonify_def with_status_def)

theorem api_list_invalid_json_witness:
  "DATA_FILE (outside (Some (py ''[1,'')) (Inl (JSONDecodeError (py ''Expecting value''))))
     = Some (py ''[1,'') \<and>
   json_load (outside (Some (py ''[1,'')) (Inl (JSONDecodeError (py ''Expecting value''))))
       (py ''[1,'')
     = Inl (JSONDecodeError (py ''Expecting value'')) \<and>
   api_list (outside (Some (py ''[1,'')) (Inl (JSONDecodeError (py ''Expecting value''))))
     = \<lparr>content = Json (PyDict [(py ''error'', PyStr (py ''invalid JSON in backend file''))]),
        status = 500\<rparr>"
  using api_list_invalid_json
    [of "outside (Some (py ''[1,'')) (Inl (JSONDecodeError (py ''Expecting value'')))"
        "py ''[1,''" "py ''Expecting value''"]
  by (simp add: outside_def)

section \<open>The submit endpoint\<close>

text \<open>
  C1: a \<open>POST /submit\<close> whose name and email are non-empty after trimming, and for which
  the collection is obtained and the insertion succeeds, hands \<open>insert_one\<close> exactly one
  document, made of the trimmed name, email and message, on the configured collection,
  and answers with a 302 redirect to \<open>/success\<close>; the response is the same whatever
  identifier the insertion returned.
\<close>

theorem submit_valid_inserts_and_redirects:
  assumes name: "strip (form_get fd (py ''name'') []) \<noteq> []"
    and email: "strip (form_get fd (py ''email'') []) \<noteq> []"
    and coll: "get_mongo_collection env ext s = (Inr c, s1)"
    and ins: "insert_one_result ext c
                [(py ''name'', strip (form_get fd (py ''name'') [])),
                 (py ''email'', strip (form_get fd (py ''email'') [])),
                 (py ''message'', strip (form_get fd (py ''message'') []))] = Inr oid"
  shows "fst (submit env ext fd s) = \<lparr>content = Redirect (py ''/success''), status = 302\<rparr> \<and>
         inserts (calls (snd (submit env ext fd s))) =
           inserts (calls s) @
             [(c, [(py ''name'', strip (form_get fd (py ''name'') [])),
                   (py ''email'', strip (form_get fd (py ''email'') [])),
                   (py ''message'', strip (form_get fd (py ''message'') []))])] \<and>
         database c = DB_NAME env \<and> coll_name c = COLLECTION_NAME env"
proof -
  have "inserts (calls s1) = inserts (calls s)"
    using get_mongo_collection_inserts [of env ext s] coll by simp
  then show ?thesis
    using submit_valid_success [OF name email coll ins] get_mongo_collection_target [OF coll]
    by (simp add: inserts_append)
qed

theorem submit_valid_inserts_and_redirects_witness:
  "strip (form_get ann (py ''name'') []) \<noteq> [] \<and>
   strip (form_get ann (py ''email'') []) \<noteq> [] \<and>
   get_mongo_collection configured (outside None (Inr PyNone)) initial_state =
     (Inr submissions, connected) \<and>
   insert_one_result (outside None (Inr PyNone)) submissions
     [(py ''name'', strip (form_get ann (py ''name'') [])),
      (py ''email'', strip (form_get ann (py ''email'') [])),
      (py ''message'', strip (form_get ann (py ''message'') []))] = Inr 1 \<and>
   fst (submit configured (outside None (Inr PyNone)) ann initial_state) =
     \<lparr>content = Redirect (py ''/success''), status = 302\<rparr> \<and>
   inserts (calls (snd (submit configured (outside None (Inr PyNone)) ann initial_state))) =
     [(submissions,
       [(py ''name'', py ''Ann''), (py ''email'', py ''ann@x.com''), (py ''message'', [])])]"
  using submit_valid_inserts_and_redirects
    [of ann configured "outside None (Inr PyNone)" initial_state submissions connected 1]
  by (simp add: ann_def configured_def outside_def initial_state_def submissions_def
      the_client_def connected_def form_get_def strip_def isspace_def
      get_mongo_collection_def MongoClient_def MONGO_URI_def DB_NAME_def COLLECTION_NAME_def)

text \<open>
  C2: a \<open>POST /submit\<close> whose name or email is empty or whitespace only (an absent
  field counting as empty) is answered with status 400 and the form template filled with
  the trimmed name, email and message; the notice "Name and email are required." is
  queued for display, and no call reaches the datastore driver.
\<close>

theorem submit_rejects_blank_name_or_email:
  assumes "(\<forall>ch\<in>set (form_get fd (py ''name'') []). isspace ch) \<or>
           (\<forall>ch\<in>set (form_get fd (py ''email'') []). isspace ch)"
  shows "submit env ext fd s =
           (\<lparr>content = Template (py ''form.html'')
                [(py ''name'', strip (form_get fd (py ''name'') [])),
                 (py ''email'', strip (form_get fd (py ''email'') [])),
                 (py ''message'', strip (form_get fd (py ''message'') []))],
             status = 400\<rparr>,
            s\<lparr>flashes := flashes s @ [(py ''error'', py ''Name and email are required.'')]\<rparr>) \<and>
         calls (snd (submit env ext fd s)) = calls s"
proof -
  from assms have "strip (form_get fd (py ''name'') []) = [] \<or>
                   strip (form_get fd (py ''email'') []) = []"
    by (simp only: strip_empty_iff)
  then show ?thesis
    by (simp add: submit_validation_failure)
qed

theorem submit_rejects_blank_name_or_email_witness:
  "((\<forall>ch\<in>set (form_get blank_name (py ''name'') []). isspace ch) \<or>
    (\<forall>ch\<in>set (form_get blank_name (py ''email'') []). isspace ch)) \<and>
   submit configured (outside None (Inr PyNone)) blank_name initial_state =
     (\<lparr>content = Template (py ''form.html'')
          [(py ''name'', []), (py ''email'', py ''x@y.com''), (py ''message'', py ''hi'')],
       status = 400\<rparr>,
      \<lparr>mongo_client = None, clients_built = 0, calls = [],
       flashes = [(py ''error'', py ''Name and email are required.'')]\<rparr>) \<and>
   calls (snd (submit configured (outside None (Inr PyNone)) blank_name initial_state)) = []"
  using submit_rejects_blank_name_or_email
    [of blank_name configured "outside None (Inr PyNone)" initial_state]
  by (simp add: blank_name_def initial_state_def form_get_def strip_def isspace_def)

text \<open>
  C3, as the claim states it, fails: the message of the configuration error is not
  "connection string not configured".
\<close>

theorem config_error_message_counterexample:
  "get_mongo_collection Map.empty (outside None (Inr PyNone)) initial_state =
     (Inl (RuntimeError (py ''MONGO_URI is not configured in environment variables.'')),
      initial_state) \<and>
   str (RuntimeError (py ''MONGO_URI is not configured in environment variables.'')) \<noteq>
     py ''connection string not configured''"
  by (simp add: get_mongo_collection_def MONGO_URI_def)

text \<open>
  C3, amended: for a \<open>POST /submit\<close> with non-empty trimmed name and email while
  \<open>MONGO_URI\<close> is unset, \<open>get_mongo_collection\<close> raises a \<open>RuntimeError\<close> with the
  message "MONGO_URI is not configured in environment variables." and leaves the state
  alone; the handler answers with status 500 and the form template filled with the
  trimmed values, queues the notice "Server configuration error: " followed by that
  message, and makes no call to the datastore driver.
\<close>

theorem submit_unconfigured:
  assumes "MONGO_URI env = None"
    and "strip (form_get fd (py ''name'') []) \<noteq> []"
    and "strip (form_get fd (py ''email'') []) \<noteq> []"
  shows "get_mongo_collection env ext s =
           (Inl (RuntimeError (py ''MONGO_URI is not configured in environment variables.'')), s) \<and>
         submit env ext fd s =
           (\<lparr>content = Template (py ''form.html'')
                [(py ''name'', strip (form_get fd (py ''name'') [])),
                 (py ''email'', strip (form_get fd (py ''email'') [])),
                 (py ''message'', strip (form_get fd (py ''message'') []))],
             status = 500\<rparr>,
            s\<lparr>flashes := flashes s @
               [(py ''error'',
                 py ''Server configuration error: MONGO_URI is not configured in environment variables.'')]\<rparr>) \<and>
         calls (snd (submit env ext fd s)) = calls s"
  using assms
  by (simp add: submit_def Let_def get_mongo_collection_def with_status_def
      render_template_def flash_def)

theorem submit_unconfigured_witness:
  "MONGO_URI Map.empty = None \<and>
   strip (form_get ann (py ''name'') []) \<noteq> [] \<and>
   strip (form_get ann (py ''email'') []) \<noteq> [] \<and>
   submit Map.empty (outside None (Inr PyNone)) ann initial_state =
     (\<lparr>content = Template (py ''form.html'')
          [(py ''name'', py ''Ann''), (py ''email'', py ''ann@x.com''), (py ''message'', [])],
       status = 500\<rparr>,
      \<lparr>mongo_client = None, clients_built = 0, calls = [],
       flashes = [(py ''error'',
         py ''Server configuration error: MONGO_URI is not configured in environment variables.'')]\<rparr>) \<and>
   calls (snd (submit Map.empty (outside None (Inr PyNone)) ann initial_state)) = []"
  using submit_unconfigured [of Map.empty ann "outside None (Inr PyNone)" initial_state]
  by (simp add: ann_def initial_state_def form_get_def strip_def isspace_def MONGO_URI_def)

text \<open>
  C9: a field absent from the request body counts as the empty string. Adding an absent
  key with the empty value anywhere in the body changes neither the response nor the
  state; without a name or without an email the answer is the 400 of a failed validation
  and the driver is not called; and without a message an otherwise valid submission
  whose insertion succeeds inserts a document whose message is the empty string.
\<close>

theorem submit_absent_field_is_empty_field:
  "(k \<notin> fst ` set (xs @ ys) \<longrightarrow>
      submit env ext (xs @ (k, []) # ys) s = submit env ext (xs @ ys) s) \<and>
   (py ''name'' \<notin> fst ` set fd \<or> py ''email'' \<notin> fst ` set fd \<longrightarrow>
      status (fst (submit env ext fd s)) = 400 \<and>
      calls (snd (submit env ext fd s)) = calls s) \<and>
   (py ''message'' \<notin> fst ` set fd \<and>
    strip (form_get fd (py ''name'') []) \<noteq> [] \<and>
    strip (form_get fd (py ''email'') []) \<noteq> [] \<and>
    get_mongo_collection env ext s = (Inr c, s1) \<and>
    insert_one_result ext c
      [(py ''name'', strip (form_get fd (py ''name'') [])),
       (py ''email'', strip (form_get fd (py ''email'') [])),
       (py ''message'', [])] = Inr oid \<longrightarrow>
      status (fst (submit env ext fd s)) = 302 \<and>
      inserts (calls (snd (submit env ext fd s))) =
        inserts (calls s) @
          [(c, [(py ''name'', strip (form_get fd (py ''name'') [])),
                (py ''email'', strip (form_get fd (py ''email'') [])),
                (py ''message'', [])])])"
proof (intro conjI impI)
  assume "k \<notin> fst ` set (xs @ ys)"
  then show "submit env ext (xs @ (k, []) # ys) s = submit env ext (xs @ ys) s"
    by (rule submit_absent_field)
next
  assume "py ''name'' \<notin> fst ` set fd \<or> py ''email'' \<notin> fst ` set fd"
  then have v: "strip (form_get fd (py ''name'') []) = [] \<or>
             strip (form_get fd (py ''email'') []) = []"
    by (auto simp add: form_get_missing strip_Nil)
  show "status (fst (submit env ext fd s)) = 400"
    by (simp add: submit_validation_failure [OF v])
  show "calls (snd (submit env ext fd s)) = calls s"
    by (simp add: submit_validation_failure [OF v])
next
  assume a: "py ''message'' \<notin> fst ` set fd \<and>
    strip (form_get fd (py ''name'') []) \<noteq> [] \<and>
    strip (form_get fd (py ''email'') []) \<noteq> [] \<and>
    get_mongo_collection env ext s = (Inr c, s1) \<and>
    insert_one_result ext c
      [(py ''name'', strip (form_get fd (py ''name'') [])),
       (py ''email'', strip (form_get fd (py ''email'') [])),
       (py ''message'', [])] = Inr oid"
  then have m: "strip (form_get fd (py ''message'') []) = []"
    by (simp add: form_get_missing strip_Nil)
  have i: "inserts (calls s1) = inserts (calls s)"
    using get_mongo_collection_inserts [of env ext s] a by simp
  have r: "submit env ext fd s =
           (\<lparr>content = Redirect (py ''/success''), status = 302\<rparr>,
            s1\<lparr>calls := calls s1 @
               [Call_insert_one c
                 [(py ''name'', strip (form_get fd (py ''name'') [])),
                  (py ''email'', strip (form_get fd (py ''email'') [])),
                  (py ''message'', [])]]\<rparr>)"
    using submit_valid_success [of fd env ext s c s1 oid] a m by simp
  show "status (fst (submit env ext fd s)) = 302"
    by (simp add: r)
  show "inserts (calls (snd (submit env ext fd s))) =
        inserts (calls s) @
          [(c, [(py ''name'', strip (form_get fd (py ''name'') [])),
                (py ''email'', strip (form_get fd (py ''email'') [])),
                (py ''message'', [])])]"
    by (simp add: r i inserts_append)
qed

theorem submit_absent_field_is_empty_field_witness:
  "py ''message'' \<notin> fst ` set (no_message @ []) \<and>
   submit configured (outside None (Inr PyNone)) (no_message @ (py ''message'', []) # [])
       initial_state =
     submit configured (outside None (Inr PyNone)) (no_message @ []) initial_state \<and>
   py ''name'' \<notin> fst ` set no_name \<and>
   status (fst (submit configured (outside None (Inr PyNone)) no_name initial_state)) = 400 \<and>
   calls (snd (submit configured (outside None (Inr PyNone)) no_name initial_state)) = [] \<and>
   py ''message'' \<notin> fst ` set no_message \<and>
   strip (form_get no_message (py ''name'') []) \<noteq> [] \<and>
   strip (form_get no_message (py ''email'') []) \<noteq> [] \<and>
   get_mongo_collection configured (outside None (Inr PyNone)) initial_state =
     (Inr submissions, connected) \<and>
   insert_one_result (outside None (Inr PyNone)) submissions
     [(py ''name'', strip (form_get no_message (py ''name'') [])),
      (py ''email'', strip (form_get no_message (py ''email'') [])),
      (py ''message'', [])] = Inr 1 \<and>
   status (fst (submit configured (outside None (Inr PyNone)) no_message initial_state)) = 302 \<and>
   inserts (calls (snd (submit configured (outside None (Inr PyNone)) no_message initial_state))) =
     [(submissions,
       [(py ''name'', py ''Ann''), (py ''email'', py ''ann@x.com''), (py ''message'', [])])]"
  using submit_absent_field_is_empty_field
    [of "py ''message''" no_message "[]" configured "outside None (Inr PyNone)" initial_state
        no_name submissions connected 1]
    submit_absent_field_is_empty_field
    [of "py ''message''" no_message "[]" configured "outside None (Inr PyNone)" initial_state
        no_message submissions connected 1]
  by (simp add: no_message_def no_name_def configured_def outside_def initial_state_def
      submissions_def the_client_def connected_def form_get_def strip_def isspace_def
      get_mongo_collection_def MongoClient_def MONGO_URI_def DB_NAME_def COLLECTION_NAME_def)

text \<open>
  C10: a \<open>POST /submit\<close> that fails validation leaves the shared connection handle as it
  was (an uninitialised handle stays uninitialised), builds no client and makes no call
  to the datastore driver.
\<close>

theorem submit_invalid_keeps_handle:
  assumes "strip (form_get fd (py ''name'') []) = [] \<or>
           strip (form_get fd (py ''email'') []) = []"
  shows "mongo_client (snd (submit env ext fd s)) = mongo_client s \<and>
         clients_built (snd (submit env ext fd s)) = clients_built s \<and>
         calls (snd (submit env ext fd s)) = calls s"
  by (simp add: submit_validation_failure [OF assms])

theorem submit_invalid_keeps_handle_witness:
  "(strip (form_get blank_name (py ''name'') []) = [] \<or>
    strip (form_get blank_name (py ''email'') []) = []) \<and>
   mongo_client (snd (submit configured (outside None (Inr PyNone)) blank_name initial_state))
     = None \<and>
   clients_built (snd (submit configured (outside None (Inr PyNone)) blank_name initial_state))
     = 0 \<and>
   calls (snd (submit configured (outside None (Inr PyNone)) blank_name initial_state)) = []"
  using submit_invalid_keeps_handle
    [of blank_name configured "outside None (Inr PyNone)" initial_state]
  by (simp add: blank_name_def initial_state_def form_get_def strip_def isspace_def)

section \<open>The connection handle\<close>

text \<open>
  C8: the connection handle is a lazily initialised singleton. With a connection string
  configured, a call of \<open>get_mongo_collection\<close> that finds the handle empty and whose
  client construction returns builds one client from the connection string with a
  server selection timeout of 5000 ms and stores it in the handle; a call that finds a
  client in the handle returns the collection on that very client and changes nothing,
  so no client is built; whatever requests follow, the handle keeps this client and no
  further construction is attempted; and a process never holds more than the one client
  it built.
\<close>

theorem mongo_client_lazy_singleton:
  assumes "MONGO_URI env = Some uri"
  shows "(mongo_client s = None \<and> MongoClient_raises ext uri 5000 = None \<longrightarrow>
            get_mongo_collection env ext s =
              (Inr \<lparr>coll_client = \<lparr>host = uri, serverSelectionTimeoutMS = 5000,
                                   ident = clients_built s\<rparr>,
                    database = DB_NAME env, coll_name = COLLECTION_NAME env\<rparr>,
               s\<lparr>calls := calls s @ [Call_MongoClient uri 5000],
                 clients_built := Suc (clients_built s),
                 mongo_client := Some \<lparr>host = uri, serverSelectionTimeoutMS = 5000,
                                       ident = clients_built s\<rparr>\<rparr>)) \<and>
         (mongo_client s = Some c \<longrightarrow>
            get_mongo_collection env ext s =
              (Inr \<lparr>coll_client = c, database = DB_NAME env,
                    coll_name = COLLECTION_NAME env\<rparr>, s)) \<and>
         (mongo_client s = Some c \<longrightarrow>
            mongo_client (serve env rs s) = Some c \<and>
            constructions (calls (serve env rs s)) = constructions (calls s)) \<and>
         clients_built (serve env rs initial_state) =
           (case mongo_client (serve env rs initial_state) of None \<Rightarrow> 0 | Some c' \<Rightarrow> 1)"
proof -
  have "clients_built initial_state =
          (case mongo_client initial_state of None \<Rightarrow> 0 | Some c' \<Rightarrow> 1)"
    by (simp add: initial_state_def)
  then have "clients_built (serve env rs initial_state) =
           (case mongo_client (serve env rs initial_state) of None \<Rightarrow> 0 | Some c' \<Rightarrow> 1)"
    by (rule serve_single_client)
  then show ?thesis
    using assms serve_keeps_client [of s c env rs]
    by (simp add: get_mongo_collection_def MongoClient_def Let_def)
qed

theorem mongo_client_lazy_singleton_witness:
  "MONGO_URI configured = Some (py ''mongodb://localhost:27017'') \<and>
   mongo_client initial_state = None \<and>
   MongoClient_raises (outside None (Inr PyNone)) (py ''mongodb://localhost:27017'') 5000
     = None \<and>
   get_mongo_collection configured (outside None (Inr PyNone)) initial_state =
     (Inr submissions, connected) \<and>
   mongo_client connected = Some the_client \<and>
   get_mongo_collection configured (outside None (Inr PyNone)) connected =
     (Inr submissions, connected) \<and>
   mongo_client (serve configured
       [(outside None (Inr PyNone), POST_submit ann), (outside None (Inr PyNone), GET_api),
        (outside None (Inr PyNone), POST_submit blank_name)] connected) = Some the_client \<and>
   constructions (calls (serve configured
       [(outside None (Inr PyNone), POST_submit ann), (outside None (Inr PyNone), GET_api),
        (outside None (Inr PyNone), POST_submit blank_name)] connected)) =
     [(py ''mongodb://localhost:27017'', 5000)] \<and>
   clients_built (serve configured
       [(outside None (Inr PyNone), POST_submit ann),
        (outside None (Inr PyNone), POST_submit ann)] initial_state) = 1"
  using mongo_client_lazy_singleton
    [of configured "py ''mongodb://localhost:27017''" initial_state "outside None (Inr PyNone)"
        the_client
        "[(outside None (Inr PyNone), POST_submit ann),
          (outside None (Inr PyNone), POST_submit ann)]"]
    mongo_client_lazy_singleton
    [of configured "py ''mongodb://localhost:27017''" connected "outside None (Inr PyNone)"
        the_client
        "[(outside None (Inr PyNone), POST_submit ann), (outside None (Inr PyNone), GET_api),
          (outside None (Inr PyNone), POST_submit blank_name)]"]
  by (simp add: ann_def blank_name_def configured_def outside_def initial_state_def
      submissions_def the_client_def connected_def form_get_def strip_def isspace_def
      submit_def Let_def insert_one_def flash_def
      get_mongo_collection_def MongoClient_def MONGO_URI_def DB_NAME_def COLLECTION_NAME_def)

end
